theory Spec2Isabelle
  imports Complex_Main "HOL-Library.AList" "HOL-Library.Sublist"
begin

section \<open>Data model (agent/state.py)\<close>

text \<open>
  The TypedDicts of \<^verbatim>\<open>agent/state.py\<close> become records. Python strings are
  \<open>string\<close>s; characters outside ASCII are their UTF-8 bytes. A Python dict is an association
  list in insertion order; \<open>AList.update\<close> overwrites a key in place and appends a new key at
  the end, as assignment to a dict item does.

  A balance or an amount is the real number that a finite Python float stands for. The float
  subtraction and addition that post a transaction are taken from the library parameter
  below, so that what is proved of a posting holds whatever these operations round to. The
  sums and products of the snapshot calculation are taken over the reals. Amounts and
  balances that are infinite or not a number are outside the model. The result of
  \<^verbatim>\<open>float()\<close>, which can be infinite, is a \<open>pyfloat\<close>.
\<close>

datatype pyfloat = Finite real | PosInf | NegInf | NaN

record Transaction =
  tx_id :: string
  timestamp :: string
  description :: string
  amount :: real
  account_from :: string
  account_to :: string
  category :: string
  subcategory :: "string option"
  cost_basis :: "real option"
  asset_type :: "string option"
  quantity :: "real option"
  encrypted_data :: "string option"

record Account =
  name :: string
  acc_type :: string
  balance :: real
  currency :: string
  updated_at :: "string option"

record UserProfile =
  tax_residency :: string
  filing_status :: string
  dependents :: int
  income_sources :: "string list"
  annual_income_estimate :: pyfloat
  retirement_accounts :: "string list"
  investment_accounts :: "string list"
  primary_bank :: string
  setup_complete :: bool

record FinancialSnapshot =
  total_cash :: real
  total_investments :: real
  total_liabilities :: real
  net_worth :: real
  ytd_income :: real
  ytd_expenses :: real
  estimated_tax_liability :: real
  monthly_burn_rate :: real

record Message =
  role :: string
  content :: string

record AgentState =
  messages :: "Message list"
  user_profile :: "UserProfile option"
  transactions :: "Transaction list"
  accounts :: "(string \<times> Account) list"
  snapshot :: FinancialSnapshot
  pending_sync :: "Transaction list"
  setup_step :: int
  thread_id :: string
  last_updated :: string

text \<open>The exceptions that the modelled code can raise.\<close>

datatype error = ValueError | IndexError | TypeError | AllModelsFailed

text \<open>
  The part of a \<^verbatim>\<open>datetime\<close> that the code reads: \<^verbatim>\<open>.year\<close> and \<^verbatim>\<open>.month\<close>.
\<close>

record datetime =
  year :: int
  month :: int

text \<open>
  The functions of the Python standard library that the code calls, and the two float
  operations of a posting. They are parameters of the model: every theorem about the program
  holds for every library. \<open>None\<close> is the \<^verbatim>\<open>ValueError\<close> of \<^verbatim>\<open>datetime.fromisoformat\<close>,
  \<^verbatim>\<open>int\<close> and \<^verbatim>\<open>float\<close>, and the \<^verbatim>\<open>None\<close> that \<^verbatim>\<open>re.search\<close> returns when nothing matches.
  \<^item> \<open>fromisoformat\<close>: \<^verbatim>\<open>datetime.fromisoformat(s)\<close>;
  \<^item> \<open>str_lower\<close>: \<^verbatim>\<open>s.lower()\<close>; \<open>str_strip\<close>: \<^verbatim>\<open>s.strip()\<close>;
  \<^item> \<open>re_search_digits\<close>: \<^verbatim>\<open>re.search(r'\d+', s)\<close>, as the text of the match;
  \<^item> \<open>re_sub_non_numeric\<close>: \<^verbatim>\<open>re.sub(r'[^\d.]', '', s)\<close>;
  \<^item> \<open>py_int\<close>: \<^verbatim>\<open>int(s)\<close>; \<open>py_float\<close>: \<^verbatim>\<open>float(s)\<close>;
  \<^item> \<open>float_sub\<close>, \<open>float_add\<close>: \<^verbatim>\<open>x - y\<close> and \<^verbatim>\<open>x + y\<close> on floats.
\<close>

record pylib =
  fromisoformat :: "string \<Rightarrow> datetime option"
  str_lower :: "string \<Rightarrow> string"
  str_strip :: "string \<Rightarrow> string"
  re_search_digits :: "string \<Rightarrow> string option"
  re_sub_non_numeric :: "string \<Rightarrow> string"
  py_int :: "string \<Rightarrow> int option"
  py_float :: "string \<Rightarrow> pyfloat option"
  float_sub :: "real \<Rightarrow> real \<Rightarrow> real"
  float_add :: "real \<Rightarrow> real \<Rightarrow> real"

section \<open>String helpers (Python built-ins used by the code)\<close>

text \<open>
  What the code does to strings without the library's tables of characters. On UTF-8 bytes
  both are as on Python's characters, since an ASCII byte is never part of a longer
  character.
\<close>

text \<open>\<^verbatim>\<open>sub in s\<close> on strings: \<open>sub\<close> occurs as a contiguous piece of \<open>s\<close>.\<close>

fun py_in :: "string \<Rightarrow> string \<Rightarrow> bool" where
  "py_in sub [] = (sub = [])"
| "py_in sub (c # cs) = (prefix sub (c # cs) \<or> py_in sub cs)"

text \<open>\<^verbatim>\<open>s.replace("Z", "")\<close>: every occurrence of the letter is removed.\<close>

definition replace_Z :: "string \<Rightarrow> string" where
  "replace_Z s = filter (\<lambda>c. c \<noteq> CHR ''Z'') s"

section \<open>Snapshot calculation (agent/graph.py, calculate_snapshot)\<close>

text \<open>
  The loop over \<^verbatim>\<open>state["accounts"].items()\<close>. The accumulator is the triple
  \<open>(total_cash, total_investments, total_liabilities)\<close>.
\<close>

definition is_investment_name :: "pylib \<Rightarrow> string \<Rightarrow> bool" where
  "is_investment_name lib n =
     (py_in ''invest'' (str_lower lib n) \<or> py_in ''stock'' (str_lower lib n)
      \<or> py_in ''crypto'' (str_lower lib n))"

fun accounts_loop ::
  "pylib \<Rightarrow> (string \<times> Account) list \<Rightarrow> real \<times> real \<times> real \<Rightarrow> real \<times> real \<times> real" where
  "accounts_loop lib [] acc = acc"
| "accounts_loop lib ((n, account) # rest) (cash, investments, liabilities) =
     (if acc_type account = ''asset'' then
        (if is_investment_name lib n
         then accounts_loop lib rest (cash, investments + balance account, liabilities)
         else accounts_loop lib rest (cash + balance account, investments, liabilities))
      else if acc_type account = ''liability''
        then accounts_loop lib rest (cash, investments, liabilities + balance account)
      else accounts_loop lib rest (cash, investments, liabilities))"

text \<open>
  The loop over \<^verbatim>\<open>state["transactions"]\<close>. The \<^verbatim>\<open>ValueError\<close> of
  \<^verbatim>\<open>datetime.fromisoformat\<close> is not caught. The accumulator is
  \<open>(ytd_income, ytd_expenses)\<close>.
\<close>

fun transactions_loop ::
  "pylib \<Rightarrow> int \<Rightarrow> Transaction list \<Rightarrow> real \<times> real \<Rightarrow> error + real \<times> real" where
  "transactions_loop lib current_year [] acc = Inr acc"
| "transactions_loop lib current_year (tx # rest) (income, expenses) =
     (case fromisoformat lib (replace_Z (timestamp tx)) of
        None \<Rightarrow> Inl ValueError
      | Some tx_date \<Rightarrow>
          if year tx_date = current_year then
            (if category tx = ''income''
               then transactions_loop lib current_year rest (income + amount tx, expenses)
             else if category tx = ''expense''
               then transactions_loop lib current_year rest (income, expenses + amount tx)
             else transactions_loop lib current_year rest (income, expenses))
          else transactions_loop lib current_year rest (income, expenses))"

text \<open>
  \<^verbatim>\<open>calculate_snapshot\<close> reads the clock twice: \<open>now1\<close> is the value of the first
  \<^verbatim>\<open>datetime.now()\<close> (its year is \<^verbatim>\<open>current_year\<close>), \<open>now2\<close> the value of the second
  (its month is used for the burn rate).
\<close>

definition calculate_snapshot ::
  "pylib \<Rightarrow> datetime \<Rightarrow> datetime \<Rightarrow> AgentState \<Rightarrow> error + FinancialSnapshot" where
  "calculate_snapshot lib now1 now2 state =
     (let current_year = year now1;
          (cash, investments, liabilities) = accounts_loop lib (accounts state) (0, 0, 0)
      in case transactions_loop lib current_year (transactions state) (0, 0) of
           Inl e \<Rightarrow> Inl e
         | Inr (income, expenses) \<Rightarrow>
             (let nw = cash + investments - liabilities;
                  taxable_income = income - expenses * (1 / 10);
                  estimated_tax = (if taxable_income > 0 then taxable_income * (22 / 100) else 0);
                  months_elapsed = max 1 (month now2);
                  monthly_burn = expenses / real_of_int months_elapsed
              in Inr \<lparr> total_cash = cash, total_investments = investments, total_liabilities = liabilities,
                       net_worth = nw, ytd_income = income, ytd_expenses = expenses,
                       estimated_tax_liability = estimated_tax,
                       monthly_burn_rate = monthly_burn \<rparr>))"


section \<open>Setup wizard (agent/graph.py, handle_setup)\<close>

definition SETUP_QUESTIONS :: "string list" where
  "SETUP_QUESTIONS =
     [''What's your tax residency? (e.g., US - California, UK, Canada - Ontario)'',
      ''What's your filing status? (Single, Married Filing Jointly, Married Filing Separately, Head of Household)'',
      ''How many dependents do you claim?'',
      ''What are your income sources? (e.g., W-2 employment, 1099 contractor, business income, investments)'',
      ''What's your estimated annual income?'',
      ''What retirement accounts do you have? (e.g., 401k, IRA, Roth IRA, none)'',
      ''What investment accounts do you have? (e.g., brokerage, crypto exchanges, none)'',
      ''What's your primary bank?'']"

text \<open>Python list indexing: a negative index counts from the end, out of range raises.\<close>

definition py_index :: "'a list \<Rightarrow> int \<Rightarrow> 'a option" where
  "py_index xs i =
     (if 0 \<le> i \<and> i < int (length xs) then Some (xs ! nat i)
      else if i < 0 \<and> - int (length xs) \<le> i then Some (xs ! nat (int (length xs) + i))
      else None)"

text \<open>
  \<^verbatim>\<open>[s.strip() for s in answer.split(",")]\<close>. Splitting at the comma is the same on
  UTF-8 bytes as on characters.
\<close>

fun split_on :: "char \<Rightarrow> string \<Rightarrow> string list" where
  "split_on sep [] = [[]]"
| "split_on sep (c # cs) =
     (if c = sep then [] # split_on sep cs
      else (case split_on sep cs of [] \<Rightarrow> [[c]] | p # ps \<Rightarrow> (c # p) # ps))"

definition split_strip :: "pylib \<Rightarrow> string \<Rightarrow> string list" where
  "split_strip lib answer = map (str_strip lib) (split_on CHR '','' answer)"

definition default_profile :: UserProfile where
  "default_profile =
     \<lparr> tax_residency = [], filing_status = [], dependents = 0, income_sources = [],
       annual_income_estimate = Finite 0, retirement_accounts = [], investment_accounts = [],
       primary_bank = [], setup_complete = False \<rparr>"

text \<open>
  The \<^verbatim>\<open>if setup_step == 0: ... elif setup_step == 7: ...\<close> chain. At step 2 the
  \<^verbatim>\<open>try\<close> block stores \<^verbatim>\<open>int\<close> of the match when there is one and 0 otherwise, and its
  \<^verbatim>\<open>except\<close> stores 0 when \<^verbatim>\<open>int\<close> raises. At step 4 it stores \<^verbatim>\<open>float(num)\<close> when
  \<^verbatim>\<open>num\<close> is not empty and 0.0 otherwise, and its \<^verbatim>\<open>except\<close> stores 0.0 when
  \<^verbatim>\<open>float\<close> raises.
\<close>

definition store_answer :: "pylib \<Rightarrow> int \<Rightarrow> string \<Rightarrow> UserProfile \<Rightarrow> UserProfile" where
  "store_answer lib step answer profile =
     (if step = 0 then profile\<lparr>tax_residency := answer\<rparr>
      else if step = 1 then profile\<lparr>filing_status := answer\<rparr>
      else if step = 2 then
        profile\<lparr>dependents :=
          (case re_search_digits lib answer of
             None \<Rightarrow> 0
           | Some m \<Rightarrow> (case py_int lib m of None \<Rightarrow> 0 | Some n \<Rightarrow> n))\<rparr>
      else if step = 3 then profile\<lparr>income_sources := split_strip lib answer\<rparr>
      else if step = 4 then
        profile\<lparr>annual_income_estimate :=
          (let num = re_sub_non_numeric lib answer
           in if num \<noteq> [] then (case py_float lib num of None \<Rightarrow> Finite 0 | Some x \<Rightarrow> x)
              else Finite 0)\<rparr>
      else if step = 5 then profile\<lparr>retirement_accounts := split_strip lib answer\<rparr>
      else if step = 6 then profile\<lparr>investment_accounts := split_strip lib answer\<rparr>
      else if step = 7 then profile\<lparr>primary_bank := answer, setup_complete := True\<rparr>
      else profile)"

definition setup_complete_message :: string where
  "setup_complete_message =
     [CHR 0xE2, CHR 0x9C, CHR 0x85] @
     '' Setup complete! I've recorded your financial profile. You can now start tracking transactions. Try saying something like 'Paid $50 for dinner at Restaurant with Chase card' or 'Received $5000 salary deposit'.''"

definition welcome_message :: string where
  "welcome_message =
     [CHR 0xF0, CHR 0x9F, CHR 0x91, CHR 0x8B] @
     '' Welcome to your Personal Accountant! Let me set up your profile.'' @
     [CHR 0x0A, CHR 0x0A] @ hd SETUP_QUESTIONS"

definition handle_setup :: "pylib \<Rightarrow> AgentState \<Rightarrow> error + AgentState" where
  "handle_setup lib state =
     (let step = setup_step state; msgs = messages state
      in if step < int (length SETUP_QUESTIONS) then
           (if msgs \<noteq> [] \<and> role (last msgs) = ''user'' then
              (let profile0 = (case user_profile state of None \<Rightarrow> default_profile | Some p \<Rightarrow> p);
                   answer = content (last msgs);
                   profile1 = store_answer lib step answer profile0;
                   state1 = state\<lparr>user_profile := Some profile1, setup_step := step + 1\<rparr>
               in if step + 1 < int (length SETUP_QUESTIONS) then
                    (case py_index SETUP_QUESTIONS (step + 1) of
                       None \<Rightarrow> Inl IndexError
                     | Some q \<Rightarrow>
                         Inr (state1\<lparr>messages :=
                                msgs @ [\<lparr>role = ''assistant'', content = ''Got it! '' @ q\<rparr>]\<rparr>))
                  else
                    Inr (state1\<lparr>messages :=
                           msgs @ [\<lparr>role = ''assistant'', content = setup_complete_message\<rparr>]\<rparr>))
            else
              Inr (state\<lparr>messages :=
                     msgs @ [\<lparr>role = ''assistant'', content = welcome_message\<rparr>]\<rparr>))
         else Inr (state\<lparr>messages := msgs\<rparr>))"

section \<open>Tools (agent/tools.py)\<close>

text \<open>
  The arguments of the tools, as the transaction-intent collaborator supplies them, already
  decoded and typed. \<open>tool_env\<close> holds what \<^verbatim>\<open>uuid.uuid4()\<close> and
  \<^verbatim>\<open>datetime.utcnow().isoformat()\<close> return while one tool runs.
\<close>

record add_transaction_args =
  arg_description :: string
  arg_amount :: real
  arg_account_from :: string
  arg_account_to :: string
  arg_category :: string
  arg_subcategory :: "string option"
  arg_cost_basis :: "real option"
  arg_asset_type :: "string option"
  arg_quantity :: "real option"

record update_balance_args =
  arg_account_name :: string
  arg_new_balance :: real
  arg_account_type :: "string option"
  arg_currency :: "string option"

record tool_env =
  uuid4 :: string
  utcnow :: string

record 'a tool_result =
  success :: bool
  payload :: 'a

definition add_transaction :: "tool_env \<Rightarrow> add_transaction_args \<Rightarrow> Transaction tool_result" where
  "add_transaction env args =
     \<lparr> success = True,
       payload =
         \<lparr> tx_id = uuid4 env, timestamp = utcnow env, description = arg_description args,
           amount = arg_amount args, account_from = arg_account_from args,
           account_to = arg_account_to args, category = arg_category args,
           subcategory = arg_subcategory args, cost_basis = arg_cost_basis args,
           asset_type = arg_asset_type args, quantity = arg_quantity args,
           encrypted_data = None \<rparr> \<rparr>"

definition update_balance :: "tool_env \<Rightarrow> update_balance_args \<Rightarrow> Account tool_result" where
  "update_balance env args =
     \<lparr> success = True,
       payload =
         \<lparr> name = arg_account_name args,
           acc_type = (case arg_account_type args of None \<Rightarrow> ''asset'' | Some t \<Rightarrow> t),
           balance = arg_new_balance args,
           currency = (case arg_currency args of None \<Rightarrow> ''USD'' | Some c \<Rightarrow> c),
           updated_at = Some (utcnow env) \<rparr> \<rparr>"

section \<open>Transaction processing (agent/graph.py, process_message)\<close>

datatype tool_call =
  Add_transaction add_transaction_args
| Update_balance update_balance_args
| Other_tool string

text \<open>
  The \<^verbatim>\<open>add_transaction\<close> branch of the tool loop: the transaction is appended, absent
  accounts are created, then the debit and the credit are posted, each by one float
  operation.
\<close>

definition new_account :: "string \<Rightarrow> string \<Rightarrow> Account" where
  "new_account n t = \<lparr> name = n, acc_type = t, balance = 0, currency = ''USD'', updated_at = None \<rparr>"

definition apply_add_transaction ::
  "pylib \<Rightarrow> tool_env \<Rightarrow> add_transaction_args \<Rightarrow> AgentState \<Rightarrow> AgentState" where
  "apply_add_transaction lib env func_args state =
     (let result = add_transaction env func_args
      in if success result then
           (let tx = payload result;
                txs = transactions state @ [tx];
                from_acc = arg_account_from func_args;
                to_acc = arg_account_to func_args;
                amt = arg_amount func_args;
                accs0 = accounts state;
                accs1 = (if map_of accs0 from_acc = None
                         then AList.update from_acc (new_account from_acc ''asset'') accs0
                         else accs0);
                accs2 = (if map_of accs1 to_acc = None
                         then (let t = (if arg_category func_args = ''expense''
                                        then ''expense'' else ''asset'')
                               in AList.update to_acc (new_account to_acc t) accs1)
                         else accs1);
                accs3 = AList.map_entry from_acc
                          (\<lambda>a. a\<lparr>balance := float_sub lib (balance a) amt\<rparr>) accs2;
                accs4 = AList.map_entry to_acc
                          (\<lambda>a. a\<lparr>balance := float_add lib (balance a) amt\<rparr>) accs3
            in state\<lparr>transactions := txs, accounts := accs4\<rparr>)
         else state)"

definition apply_update_balance ::
  "tool_env \<Rightarrow> update_balance_args \<Rightarrow> AgentState \<Rightarrow> AgentState" where
  "apply_update_balance env func_args state =
     (let result = update_balance env func_args
      in if success result then
           (let acc = payload result
            in state\<lparr>accounts := AList.update (name acc) acc (accounts state)\<rparr>)
         else state)"

fun execute_tool_call :: "pylib \<Rightarrow> tool_env \<Rightarrow> tool_call \<Rightarrow> AgentState \<Rightarrow> AgentState" where
  "execute_tool_call lib env (Add_transaction func_args) state =
     apply_add_transaction lib env func_args state"
| "execute_tool_call lib env (Update_balance func_args) state =
     apply_update_balance env func_args state"
| "execute_tool_call lib env (Other_tool func_name) state = state"

text \<open>
  The loop over \<^verbatim>\<open>message["tool_calls"]\<close>; \<open>envs i\<close> is the environment of the
  \<open>i\<close>-th call.
\<close>

fun tool_loop ::
  "pylib \<Rightarrow> (nat \<Rightarrow> tool_env) \<Rightarrow> nat \<Rightarrow> tool_call list \<Rightarrow> AgentState \<Rightarrow> AgentState" where
  "tool_loop lib envs i [] state = state"
| "tool_loop lib envs i (c # cs) state =
     tool_loop lib envs (Suc i) cs (execute_tool_call lib (envs i) c state)"

text \<open>
  A decoded reply of the language model. \<open>Missing\<close> is a message with no
  \<^verbatim>\<open>content\<close> key, \<open>Null\<close> one whose content is \<^verbatim>\<open>None\<close>: adding the snapshot line to it
  raises \<^verbatim>\<open>TypeError\<close>.
\<close>

datatype content_field = Missing | Null | Text string

record llm_message =
  tool_calls :: "tool_call list"
  reply :: content_field

text \<open>
  Everything \<^verbatim>\<open>process_message\<close> takes from outside the state: the clock readings of its two
  snapshot calculations, the environments of the tool calls, the final
  \<^verbatim>\<open>datetime.utcnow().isoformat()\<close>, the two replies of \<^verbatim>\<open>call_openrouter\<close> (\<open>None\<close> when
  all models failed) and the formatting of the snapshot line.
\<close>

record process_env =
  first_now1 :: datetime
  first_now2 :: datetime
  tool_envs :: "nat \<Rightarrow> tool_env"
  final_now1 :: datetime
  final_now2 :: datetime
  final_utcnow :: string
  first_response :: "llm_message option"
  second_response :: "llm_message option"
  snapshot_display :: "FinancialSnapshot \<Rightarrow> string"

definition default_reply :: string where
  "default_reply = ''I apologize, but I couldn't process that. Could you rephrase?''"

text \<open>
  The end of \<^verbatim>\<open>process_message\<close>, after the tool loop: the snapshot is recomputed and
  recorded, the reply is appended with the snapshot line, \<^verbatim>\<open>last_updated\<close> is set.
\<close>

definition finish_message ::
  "pylib \<Rightarrow> process_env \<Rightarrow> llm_message \<Rightarrow> AgentState \<Rightarrow> error + AgentState" where
  "finish_message lib env message state =
     (case calculate_snapshot lib (final_now1 env) (final_now2 env) state of
        Inl e \<Rightarrow> Inl e
      | Inr snap \<Rightarrow>
          (case reply message of
             Null \<Rightarrow> Inl TypeError
           | other \<Rightarrow>
               (let assistant_content = (case other of Text s \<Rightarrow> s | _ \<Rightarrow> default_reply)
                in Inr (state\<lparr>snapshot := snap,
                               messages := messages state @
                                 [\<lparr>role = ''assistant'',
                                   content = assistant_content @ snapshot_display env snap\<rparr>],
                               last_updated := final_utcnow env\<rparr>))))"

definition process_message ::
  "pylib \<Rightarrow> process_env \<Rightarrow> AgentState \<Rightarrow> error + AgentState" where
  "process_message lib env state =
     (case calculate_snapshot lib (first_now1 env) (first_now2 env) state of
        Inl e \<Rightarrow> Inl e
      | Inr snap \<Rightarrow>
          (let state1 = state\<lparr>snapshot := snap\<rparr>
           in case first_response env of
                None \<Rightarrow> Inl AllModelsFailed
              | Some message \<Rightarrow>
                  if tool_calls message \<noteq> [] then
                    (let state2 = tool_loop lib (tool_envs env) 0 (tool_calls message) state1
                     in case second_response env of
                          None \<Rightarrow> Inl AllModelsFailed
                        | Some message2 \<Rightarrow> finish_message lib env message2 state2)
                  else finish_message lib env message state1))"

section \<open>The graph and the chat turn (agent/graph.py, backend/main.py)\<close>

definition should_setup :: "AgentState \<Rightarrow> string" where
  "should_setup state =
     (case user_profile state of
        None \<Rightarrow> ''setup''
      | Some profile \<Rightarrow> if \<not> setup_complete profile then ''setup'' else ''process'')"

definition run_graph ::
  "pylib \<Rightarrow> process_env \<Rightarrow> AgentState \<Rightarrow> error + AgentState" where
  "run_graph lib env state =
     (if should_setup state = ''setup''
      then (case handle_setup lib state of Inl e \<Rightarrow> Inl e | Inr s \<Rightarrow> Inr s)
      else process_message lib env state)"

definition zero_snapshot :: FinancialSnapshot where
  "zero_snapshot =
     \<lparr> total_cash = 0, total_investments = 0, total_liabilities = 0, net_worth = 0,
       ytd_income = 0, ytd_expenses = 0, estimated_tax_liability = 0, monthly_burn_rate = 0 \<rparr>"

definition create_default_state :: "string \<Rightarrow> AgentState" where
  "create_default_state now =
     \<lparr> messages = [], user_profile = None, transactions = [], accounts = [],
       snapshot = zero_snapshot, pending_sync = [], setup_step = 0, thread_id = [],
       last_updated = now \<rparr>"

text \<open>
  \<^verbatim>\<open>chat\<close>: \<open>loaded\<close> is what \<^verbatim>\<open>load_state\<close> returned, \<open>created\<close> the clock reading of
  \<^verbatim>\<open>create_default_state\<close>. The result is the state handed to \<^verbatim>\<open>save_state\<close>.
\<close>

definition chat ::
  "pylib \<Rightarrow> process_env \<Rightarrow> string \<Rightarrow> AgentState option \<Rightarrow> string \<Rightarrow> string
     \<Rightarrow> error + AgentState" where
  "chat lib env created loaded tid user_message =
     (let state0 = (case loaded of
                      None \<Rightarrow> (create_default_state created)\<lparr>thread_id := tid\<rparr>
                    | Some s \<Rightarrow> s);
          state1 = state0\<lparr>messages := messages state0 @ [\<lparr>role = ''user'', content = user_message\<rparr>]\<rparr>
      in run_graph lib env state1)"

section \<open>Sync merge (backend/main.py, sync_data)\<close>

record SyncRequest =
  req_thread_id :: string
  req_transactions :: "Transaction list"
  req_accounts :: "(string \<times> Account) list"

text \<open>
  The loop over \<^verbatim>\<open>request.transactions\<close>. \<open>existing_ids\<close> is computed once, before the
  loop, and is not extended by it.
\<close>

fun merge_transactions :: "string set \<Rightarrow> Transaction list \<Rightarrow> Transaction list \<Rightarrow> Transaction list" where
  "merge_transactions existing_ids [] txs = txs"
| "merge_transactions existing_ids (tx # rest) txs =
     (if tx_id tx \<notin> existing_ids
      then merge_transactions existing_ids rest (txs @ [tx])
      else merge_transactions existing_ids rest txs)"

fun merge_accounts :: "(string \<times> Account) list \<Rightarrow> (string \<times> Account) list \<Rightarrow> (string \<times> Account) list" where
  "merge_accounts [] accs = accs"
| "merge_accounts ((n, acc) # rest) accs = merge_accounts rest (AList.update n acc accs)"

record sync_env =
  sync_created :: string
  sync_now1 :: datetime
  sync_now2 :: datetime
  sync_utcnow :: string

definition sync_data ::
  "pylib \<Rightarrow> sync_env \<Rightarrow> AgentState option \<Rightarrow> SyncRequest \<Rightarrow> error + AgentState" where
  "sync_data lib env loaded request =
     (let state0 = (case loaded of
                      None \<Rightarrow> (create_default_state (sync_created env))\<lparr>thread_id := req_thread_id request\<rparr>
                    | Some s \<Rightarrow> s);
          existing_ids = set (map tx_id (transactions state0));
          state1 = state0\<lparr>transactions :=
                     merge_transactions existing_ids (req_transactions request) (transactions state0)\<rparr>;
          state2 = state1\<lparr>accounts := merge_accounts (req_accounts request) (accounts state1)\<rparr>
      in case calculate_snapshot lib (sync_now1 env) (sync_now2 env) state2 of
           Inl e \<Rightarrow> Inl e
         | Inr snap \<Rightarrow> Inr (state2\<lparr>snapshot := snap, last_updated := sync_utcnow env\<rparr>))"

section \<open>A stand-in library, to run the model\<close>

text \<open>
  The theorems about the program hold for every library. \<open>ascii_lib\<close> serves to run the
  model on concrete inputs: the examples and the counterexamples use it only where it agrees
  with Python, that is on ASCII text, on timestamps of the form \<^verbatim>\<open>YYYY-MM-DD...\<close> with a
  valid date, on digit strings of a few characters, on decimals that a float holds exactly,
  and on differences and sums of floats that need no rounding.
\<close>

definition ascii_lower_char :: "char \<Rightarrow> char" where
  "ascii_lower_char c =
     (case map_of (zip ''ABCDEFGHIJKLMNOPQRSTUVWXYZ'' ''abcdefghijklmnopqrstuvwxyz'') c of
        None \<Rightarrow> c
      | Some l \<Rightarrow> l)"

definition ascii_lower :: "string \<Rightarrow> string" where
  "ascii_lower s = map ascii_lower_char s"

definition is_digit :: "char \<Rightarrow> bool" where
  "is_digit c = (c \<in> set ''0123456789'')"

definition digit_val :: "char \<Rightarrow> nat" where
  "digit_val c = of_char c - 48"

fun digits_value :: "string \<Rightarrow> nat \<Rightarrow> nat" where
  "digits_value [] acc = acc"
| "digits_value (c # cs) acc = digits_value cs (10 * acc + digit_val c)"

definition parse_ymd :: "string \<Rightarrow> datetime option" where
  "parse_ymd s =
     (if length s \<ge> 10 \<and> list_all is_digit (take 4 s) \<and> s ! 4 = CHR ''-''
         \<and> list_all is_digit (take 2 (drop 5 s)) \<and> s ! 7 = CHR ''-''
         \<and> list_all is_digit (take 2 (drop 8 s))
      then Some \<lparr> year = int (digits_value (take 4 s) 0),
                  month = int (digits_value (take 2 (drop 5 s)) 0) \<rparr>
      else None)"

text \<open>The leftmost maximal run of ASCII digits.\<close>

definition ascii_search_digits :: "string \<Rightarrow> string option" where
  "ascii_search_digits answer =
     (let m = takeWhile is_digit (dropWhile (\<lambda>c. \<not> is_digit c) answer)
      in if m = [] then None else Some m)"

definition ascii_int :: "string \<Rightarrow> int option" where
  "ascii_int s = (if s \<noteq> [] \<and> list_all is_digit s then Some (int (digits_value s 0)) else None)"

definition ascii_sub_non_numeric :: "string \<Rightarrow> string" where
  "ascii_sub_non_numeric answer = filter (\<lambda>c. is_digit c \<or> c = CHR ''.'') answer"

text \<open>
  The value of a string of digits with at most one dot and at least one digit; this is
  what \<^verbatim>\<open>float\<close> returns when a float holds that value exactly.
\<close>

definition ascii_float :: "string \<Rightarrow> pyfloat option" where
  "ascii_float s =
     (let ip = takeWhile is_digit s; rest = dropWhile is_digit s
      in if rest = [] then (if ip = [] then None else Some (Finite (real (digits_value ip 0))))
         else if hd rest = CHR ''.'' \<and> list_all is_digit (tl rest) \<and> (ip \<noteq> [] \<or> tl rest \<noteq> [])
           then Some (Finite (real (digits_value ip 0)
                              + real (digits_value (tl rest) 0) / 10 ^ length (tl rest)))
         else None)"

definition ascii_space :: "char \<Rightarrow> bool" where
  "ascii_space c =
     (c \<in> set [CHR 0x09, CHR 0x0A, CHR 0x0B, CHR 0x0C, CHR 0x0D,
               CHR 0x1C, CHR 0x1D, CHR 0x1E, CHR 0x1F, CHR 0x20])"

definition ascii_strip :: "string \<Rightarrow> string" where
  "ascii_strip s = rev (dropWhile ascii_space (rev (dropWhile ascii_space s)))"

definition ascii_lib :: pylib where
  "ascii_lib =
     \<lparr> fromisoformat = parse_ymd, str_lower = ascii_lower, str_strip = ascii_strip,
       re_search_digits = ascii_search_digits, re_sub_non_numeric = ascii_sub_non_numeric,
       py_int = ascii_int, py_float = ascii_float,
       float_sub = (\<lambda>x y. x - y), float_add = (\<lambda>x y. x + y) \<rparr>"

section \<open>Several turns, and concrete inputs\<close>

text \<open>
  Consecutive chat turns of one thread: what a turn saves is what the next turn loads. The
  turns share one environment, which only the transaction-processing path reads.
\<close>

fun chat_turns ::
  "pylib \<Rightarrow> process_env \<Rightarrow> string \<Rightarrow> string \<Rightarrow> AgentState option
     \<Rightarrow> string list \<Rightarrow> error + AgentState option" where
  "chat_turns lib env created tid loaded [] = Inr loaded"
| "chat_turns lib env created tid loaded (m # ms) =
     (case chat lib env created loaded tid m of
        Inl e \<Rightarrow> Inl e
      | Inr s \<Rightarrow> chat_turns lib env created tid (Some s) ms)"

text \<open>The profile after the answers \<open>as\<close>, the first of them given at step \<open>i\<close>.\<close>

fun store_answers :: "pylib \<Rightarrow> int \<Rightarrow> string list \<Rightarrow> UserProfile \<Rightarrow> UserProfile" where
  "store_answers lib i [] p = p"
| "store_answers lib i (a # as) p = store_answers lib (i + 1) as (store_answer lib i a p)"


text \<open>The balance of an account in the mapping; an account not yet created holds nothing.\<close>

definition balance_of :: "(string \<times> Account) list \<Rightarrow> string \<Rightarrow> real" where
  "balance_of accs n = (case map_of accs n of None \<Rightarrow> 0 | Some a \<Rightarrow> balance a)"

definition total_balance :: "(string \<times> Account) list \<Rightarrow> real" where
  "total_balance accs = sum_list (map (balance \<circ> snd) accs)"

text \<open>Sample ledgers, clocks, environments and requests on which the model is run.\<close>

definition mk_tx :: "string \<Rightarrow> string \<Rightarrow> real \<Rightarrow> string \<Rightarrow> Transaction" where
  "mk_tx i ts amt cat =
     \<lparr> tx_id = i, timestamp = ts, description = ''sample'', amount = amt,
       account_from = ''Checking'', account_to = ''Other'', category = cat,
       subcategory = None, cost_basis = None, asset_type = None, quantity = None,
       encrypted_data = None \<rparr>"

definition mk_account :: "string \<Rightarrow> string \<Rightarrow> real \<Rightarrow> string \<times> Account" where
  "mk_account n t b =
     (n, \<lparr> name = n, acc_type = t, balance = b, currency = ''USD'', updated_at = None \<rparr>)"

definition june_2025 :: datetime where
  "june_2025 = \<lparr> year = 2025, month = 6 \<rparr>"

definition ledger_state :: AgentState where
  "ledger_state =
     (create_default_state ''2025-01-01T00:00:00'')
       \<lparr> transactions :=
           [mk_tx ''t1'' ''2025-02-01T09:00:00'' 10000 ''income'',
            mk_tx ''t2'' ''2025-03-01T09:00:00Z'' 2000 ''expense'',
            mk_tx ''t3'' ''2024-12-31T23:59:59'' 700 ''income'',
            mk_tx ''t4'' ''2025-04-01T09:00:00'' 40 ''transfer'',
            mk_tx ''t5'' ''2025-05-01T09:00:00'' 60 ''investment''],
         accounts :=
           [mk_account ''Checking'' ''asset'' 1500,
            mk_account ''My STOCKS'' ''asset'' 300,
            mk_account ''Visa'' ''liability'' 200,
            mk_account ''Dining'' ''expense'' 75] \<rparr>"

definition loan_state :: AgentState where
  "loan_state =
     (create_default_state ''2025-01-01T00:00:00'')
       \<lparr> accounts := [mk_account ''Loan'' ''liability'' (- 500)] \<rparr>"

definition fresh_thread :: AgentState where
  "fresh_thread = (create_default_state ''2025-06-01T12:00:00'')\<lparr>thread_id := ''thread-1''\<rparr>"

definition idle_env :: process_env where
  "idle_env =
     \<lparr> first_now1 = june_2025, first_now2 = june_2025,
       tool_envs = (\<lambda>i. \<lparr>uuid4 = ''id'', utcnow = ''2025-06-01T12:00:00''\<rparr>),
       final_now1 = june_2025, final_now2 = june_2025,
       final_utcnow = ''2025-06-01T12:00:01'',
       first_response = None, second_response = None,
       snapshot_display = (\<lambda>snap. []) \<rparr>"

text \<open>
  Two runs of the wizard: in the first the dependents answer has no digit and the income
  answer does not parse, in the second both parse.
\<close>

definition wizard_answer :: "nat \<Rightarrow> string" where
  "wizard_answer i =
     [''US - California'', ''Single'', ''none'', ''W-2 employment, investments'',
      ''between 1.5 and 2.5 million'', ''401k, Roth IRA'', ''none'', ''Chase''] ! i"

definition second_answer :: "nat \<Rightarrow> string" where
  "second_answer i =
     [''UK'', ''Married Filing Jointly'', ''I have 2 kids'', ''business income'',
      ''about $85,000.50 a year'', ''none'', ''brokerage , crypto exchanges'', ''Barclays''] ! i"

definition sample_env :: tool_env where
  "sample_env = \<lparr> uuid4 = ''0b5f7c1e-0000-4000-8000-000000000001'', utcnow = ''2025-06-01T12:00:00'' \<rparr>"

definition transfer_args :: "real \<Rightarrow> string \<Rightarrow> string \<Rightarrow> string \<Rightarrow> add_transaction_args" where
  "transfer_args amt src dst cat =
     \<lparr> arg_description = ''dinner'', arg_amount = amt, arg_account_from = src,
       arg_account_to = dst, arg_category = cat, arg_subcategory = None,
       arg_cost_basis = None, arg_asset_type = None, arg_quantity = None \<rparr>"

text \<open>The account mapping after the two account creations of the add_transaction branch.\<close>

definition ensure_accounts :: "add_transaction_args \<Rightarrow> (string \<times> Account) list \<Rightarrow> (string \<times> Account) list" where
  "ensure_accounts func_args accs0 =
     (let from_acc = arg_account_from func_args;
          to_acc = arg_account_to func_args;
          accs1 = (if map_of accs0 from_acc = None
                   then AList.update from_acc (new_account from_acc ''asset'') accs0
                   else accs0)
      in (if map_of accs1 to_acc = None
          then (let t = (if arg_category func_args = ''expense'' then ''expense'' else ''asset'')
                in AList.update to_acc (new_account to_acc t) accs1)
          else accs1))"

definition stale_state :: AgentState where
  "stale_state =
     ledger_state
       \<lparr> snapshot :=
           \<lparr> total_cash = 1500, total_investments = 300, total_liabilities = 200,
             net_worth = 1600, ytd_income = 10000, ytd_expenses = 2000,
             estimated_tax_liability = 2156, monthly_burn_rate = 2000 / 6 \<rparr>,
         last_updated := ''2025-06-01T12:00:00'' \<rparr>"

definition january_2026 :: datetime where
  "january_2026 = \<lparr> year = 2026, month = 1 \<rparr>"


definition january_env :: process_env where
  "january_env =
     idle_env \<lparr> first_now1 := january_2026, first_now2 := january_2026,
                final_now1 := january_2026, final_now2 := january_2026,
                final_utcnow := ''2026-01-15T08:00:00'' \<rparr>"

definition complete_state :: AgentState where
  "complete_state =
     fresh_thread \<lparr> user_profile := Some (default_profile\<lparr>setup_complete := True\<rparr>),
                    setup_step := 8 \<rparr>"

definition dinner_env :: process_env where
  "dinner_env =
     \<lparr> first_now1 = june_2025, first_now2 = june_2025,
       tool_envs = (\<lambda>i. sample_env),
       final_now1 = june_2025, final_now2 = june_2025,
       final_utcnow = ''2025-06-01T12:00:05'',
       first_response =
         Some \<lparr> tool_calls = [Add_transaction (transfer_args 50 ''Checking'' ''Dining'' ''expense'')],
                reply = Null \<rparr>,
       second_response = Some \<lparr> tool_calls = [], reply = Text ''Recorded.'' \<rparr>,
       snapshot_display = (\<lambda>snap. '' | snapshot'') \<rparr>"

definition june_sync_env :: sync_env where
  "june_sync_env =
     \<lparr> sync_created = ''2025-06-01T12:00:00'', sync_now1 = june_2025, sync_now2 = june_2025,
       sync_utcnow = ''2025-06-01T12:00:02'' \<rparr>"

definition duplicate_request :: SyncRequest where
  "duplicate_request =
     \<lparr> req_thread_id = ''thread-1'',
       req_transactions =
         [mk_tx ''t1'' ''2025-02-01T09:00:00'' 100 ''income'',
          mk_tx ''t1'' ''2025-02-01T09:00:00'' 100 ''income''],
       req_accounts = [] \<rparr>"

section \<open>The snapshot calculation: auxiliary facts\<close>









lemmas eval_simps =
  mk_tx_def mk_account_def june_2025_def create_default_state_def zero_snapshot_def
  ascii_lib_def parse_ymd_def is_digit_def digit_val_def replace_Z_def
  is_investment_name_def ascii_lower_def ascii_lower_char_def


lemma loan_snapshot:
  "calculate_snapshot ascii_lib june_2025 june_2025 loan_state =
     Inr \<lparr> total_cash = 0, total_investments = 0, total_liabilities = - 500,
           net_worth = 500, ytd_income = 0, ytd_expenses = 0,
           estimated_tax_liability = 0, monthly_burn_rate = 0 \<rparr>"
  by (simp add: calculate_snapshot_def loan_state_def eval_simps)

section \<open>The snapshot calculation: claims\<close>











section \<open>The setup wizard: auxiliary facts\<close>

lemma length_SETUP_QUESTIONS: "length SETUP_QUESTIONS = 8"
  by (simp add: SETUP_QUESTIONS_def)

lemma py_index_in_range: "0 \<le> i \<Longrightarrow> i < int (length xs) \<Longrightarrow> py_index xs i = Some (xs ! nat i)"
  by (simp add: py_index_def)

lemma handle_setup_answer:
  assumes "0 \<le> setup_step s" and "setup_step s < 8"
    and "messages s \<noteq> []" and "role (last (messages s)) = ''user''"
  shows "handle_setup lib s =
           Inr (s\<lparr>user_profile :=
                    Some (store_answer lib (setup_step s) (content (last (messages s)))
                            (case user_profile s of None \<Rightarrow> default_profile | Some p \<Rightarrow> p)),
                  setup_step := setup_step s + 1,
                  messages := messages s @
                    [\<lparr>role = ''assistant'',
                      content = (if setup_step s + 1 < 8
                                 then ''Got it! '' @ SETUP_QUESTIONS ! nat (setup_step s + 1)
                                 else setup_complete_message)\<rparr>]\<rparr>)"
  using assms
  by (simp add: handle_setup_def length_SETUP_QUESTIONS Let_def py_index_in_range)

lemma chat_setup_step:
  assumes "0 \<le> setup_step s" and "setup_step s < 8" and "should_setup s = ''setup''"
  shows "\<exists>s'. chat lib env created (Some s) tid m = Inr s'
           \<and> setup_step s' = setup_step s + 1
           \<and> user_profile s' =
                Some (store_answer lib (setup_step s) m
                        (case user_profile s of None \<Rightarrow> default_profile | Some p \<Rightarrow> p))"
proof -
  let ?s1 = "s\<lparr>messages := messages s @ [\<lparr>role = ''user'', content = m\<rparr>]\<rparr>"
  have "should_setup ?s1 = ''setup''" using assms(3) by (simp add: should_setup_def)
  moreover have "handle_setup lib ?s1 = Inr (?s1\<lparr>user_profile :=
                    Some (store_answer lib (setup_step ?s1) (content (last (messages ?s1)))
                            (case user_profile ?s1 of None \<Rightarrow> default_profile | Some p \<Rightarrow> p)),
                  setup_step := setup_step ?s1 + 1,
                  messages := messages ?s1 @
                    [\<lparr>role = ''assistant'',
                      content = (if setup_step ?s1 + 1 < 8
                                 then ''Got it! '' @ SETUP_QUESTIONS ! nat (setup_step ?s1 + 1)
                                 else setup_complete_message)\<rparr>]\<rparr>)"
    by (rule handle_setup_answer) (use assms in simp_all)
  ultimately show ?thesis
    by (simp add: chat_def run_graph_def)
qed

lemma chat_turns_snoc:
  "chat_turns lib env created tid loaded (ms @ [m]) =
     (case chat_turns lib env created tid loaded ms of
        Inl e \<Rightarrow> Inl e
      | Inr l \<Rightarrow> (case chat lib env created l tid m of
                    Inl e \<Rightarrow> Inl e | Inr s \<Rightarrow> Inr (Some s)))"
  by (induction ms arbitrary: loaded) (auto split: sum.splits)

lemma store_answers_snoc:
  "store_answers lib i (as @ [a]) p = store_answer lib (i + int (length as)) a (store_answers lib i as p)"
  by (induction as arbitrary: i p) (simp_all add: add.assoc add.commute)

lemma setup_complete_store_answer:
  "setup_complete (store_answer lib i a p) = (if i = 7 then True else setup_complete p)"
  by (simp add: store_answer_def)

lemma setup_prefix:
  assumes "user_profile s0 = None" and "setup_step s0 = 0"
  shows "length as \<le> 8 \<Longrightarrow>
     \<exists>s. chat_turns lib env created tid (Some s0) as = Inr (Some s)
        \<and> setup_step s = int (length as)
        \<and> user_profile s = (if as = [] then None else Some (store_answers lib 0 as default_profile))
        \<and> (setup_complete (store_answers lib 0 as default_profile) \<longleftrightarrow> length as = 8)"
proof (induction as rule: rev_induct)
  case Nil
  then show ?case using assms by (simp add: default_profile_def)
next
  case (snoc a as)
  then have len: "length as < 8" by simp
  with snoc obtain s where s: "chat_turns lib env created tid (Some s0) as = Inr (Some s)"
    and step: "setup_step s = int (length as)"
    and prof: "user_profile s = (if as = [] then None else Some (store_answers lib 0 as default_profile))"
    and inc: "\<not> setup_complete (store_answers lib 0 as default_profile)"
    by auto
  have ss: "should_setup s = ''setup''"
    using prof inc by (simp add: should_setup_def)
  have p0: "(case user_profile s of None \<Rightarrow> default_profile | Some p \<Rightarrow> p)
              = store_answers lib 0 as default_profile"
    using prof by (cases as) simp_all
  from chat_setup_step [of s, OF _ _ ss, of lib env created tid a] step len
  obtain s' where s': "chat lib env created (Some s) tid a = Inr s'"
    and step': "setup_step s' = setup_step s + 1"
    and prof': "user_profile s' = Some (store_answer lib (setup_step s) a
                        (case user_profile s of None \<Rightarrow> default_profile | Some p \<Rightarrow> p))"
    by auto
  show ?case
    using s s' step step' prof' p0 inc len
    by (auto simp add: chat_turns_snoc store_answers_snoc setup_complete_store_answer)
qed

lemma store_answers_all:
  "store_answers lib 0 [a0, a1, a2, a3, a4, a5, a6, a7] default_profile =
     \<lparr> tax_residency = a0, filing_status = a1,
       dependents =
         (case re_search_digits lib a2 of
            None \<Rightarrow> 0
          | Some m \<Rightarrow> (case py_int lib m of None \<Rightarrow> 0 | Some n \<Rightarrow> n)),
       income_sources = split_strip lib a3,
       annual_income_estimate =
         (if re_sub_non_numeric lib a4 \<noteq> []
          then (case py_float lib (re_sub_non_numeric lib a4) of
                  None \<Rightarrow> Finite 0
                | Some x \<Rightarrow> x)
          else Finite 0),
       retirement_accounts = split_strip lib a5, investment_accounts = split_strip lib a6,
       primary_bank = a7, setup_complete = True \<rparr>"
  by (simp add: store_answer_def default_profile_def Let_def)

section \<open>The setup wizard: claims\<close>

text \<open>
  C10: for a state whose \<open>setup_step\<close> is at least 8, the number of setup questions,
  \<open>handle_setup\<close> returns the state unchanged.
\<close>

theorem handle_setup_after_last_question:
  "8 \<le> setup_step state \<Longrightarrow> handle_setup lib state = Inr state"
  by (simp add: handle_setup_def length_SETUP_QUESTIONS)

theorem handle_setup_after_last_question_witness:
  "8 \<le> setup_step (fresh_thread\<lparr>setup_step := 8\<rparr>)
   \<and> handle_setup ascii_lib (fresh_thread\<lparr>setup_step := 8\<rparr>) = Inr (fresh_thread\<lparr>setup_step := 8\<rparr>)"
  using handle_setup_after_last_question [of "fresh_thread\<lparr>setup_step := 8\<rparr>" ascii_lib] by simp

text \<open>
  C5: starting from a state with no profile and \<open>setup_step = 0\<close>, eight chat turns
  take the setup path one after another. After \<open>k < 8\<close> answers \<open>setup_step\<close> is \<open>k\<close> and
  setup is still pending; after the eighth \<open>setup_step\<close> is 8, \<open>setup_complete\<close> is true and
  every field of the profile holds the answer of its step: as given, split at the commas
  and stripped, or parsed. The dependents are the integer that \<^verbatim>\<open>int\<close> reads from the
  first run of digits, and 0 when \<^verbatim>\<open>re.search\<close> finds none or \<^verbatim>\<open>int\<close> raises. The annual
  income is the float that \<^verbatim>\<open>float\<close> reads from the digits and dots of the answer, and 0.0
  when nothing is left of the answer or \<^verbatim>\<open>float\<close> raises. The wizard advances by one step
  whatever the answers are.
\<close>

theorem setup_wizard_completes:
  assumes "user_profile s0 = None" and "setup_step s0 = 0"
  shows "(\<exists>s. chat_turns lib env created tid (Some s0)
                 [a0, a1, a2, a3, a4, a5, a6, a7] = Inr (Some s)
            \<and> setup_step s = 8 \<and> should_setup s = ''process''
            \<and> user_profile s =
                Some \<lparr> tax_residency = a0, filing_status = a1,
                       dependents =
                         (case re_search_digits lib a2 of
                            None \<Rightarrow> 0
                          | Some m \<Rightarrow> (case py_int lib m of None \<Rightarrow> 0 | Some n \<Rightarrow> n)),
                       income_sources = split_strip lib a3,
                       annual_income_estimate =
                         (if re_sub_non_numeric lib a4 \<noteq> []
                          then (case py_float lib (re_sub_non_numeric lib a4) of
                                  None \<Rightarrow> Finite 0
                                | Some x \<Rightarrow> x)
                          else Finite 0),
                       retirement_accounts = split_strip lib a5,
                       investment_accounts = split_strip lib a6,
                       primary_bank = a7, setup_complete = True \<rparr>)
         \<and> (\<forall>k < 8. \<exists>s'. chat_turns lib env created tid (Some s0)
                            (take k [a0, a1, a2, a3, a4, a5, a6, a7]) = Inr (Some s')
                \<and> setup_step s' = int k \<and> should_setup s' = ''setup'')"
proof (intro conjI allI impI)
  let ?as = "[a0, a1, a2, a3, a4, a5, a6, a7]"
  from setup_prefix [OF assms, of ?as lib env created tid]
  obtain s where s: "chat_turns lib env created tid (Some s0) ?as = Inr (Some s)"
    and step: "setup_step s = 8"
    and prof: "user_profile s = Some (store_answers lib 0 ?as default_profile)"
    by auto
  note all = store_answers_all [of lib a0 a1 a2 a3 a4 a5 a6 a7]
  have r: "should_setup s = ''process''"
    using prof by (simp only: should_setup_def all) simp
  from prof have prof': "user_profile s =
                Some \<lparr> tax_residency = a0, filing_status = a1,
                       dependents =
                         (case re_search_digits lib a2 of
                            None \<Rightarrow> 0
                          | Some m \<Rightarrow> (case py_int lib m of None \<Rightarrow> 0 | Some n \<Rightarrow> n)),
                       income_sources = split_strip lib a3,
                       annual_income_estimate =
                         (if re_sub_non_numeric lib a4 \<noteq> []
                          then (case py_float lib (re_sub_non_numeric lib a4) of
                                  None \<Rightarrow> Finite 0
                                | Some x \<Rightarrow> x)
                          else Finite 0),
                       retirement_accounts = split_strip lib a5,
                       investment_accounts = split_strip lib a6,
                       primary_bank = a7, setup_complete = True \<rparr>"
    by (simp only: all)
  from s step r prof'
  show "\<exists>s. chat_turns lib env created tid (Some s0) ?as = Inr (Some s)
            \<and> setup_step s = 8 \<and> should_setup s = ''process''
            \<and> user_profile s =
                Some \<lparr> tax_residency = a0, filing_status = a1,
                       dependents =
                         (case re_search_digits lib a2 of
                            None \<Rightarrow> 0
                          | Some m \<Rightarrow> (case py_int lib m of None \<Rightarrow> 0 | Some n \<Rightarrow> n)),
                       income_sources = split_strip lib a3,
                       annual_income_estimate =
                         (if re_sub_non_numeric lib a4 \<noteq> []
                          then (case py_float lib (re_sub_non_numeric lib a4) of
                                  None \<Rightarrow> Finite 0
                                | Some x \<Rightarrow> x)
                          else Finite 0),
                       retirement_accounts = split_strip lib a5,
                       investment_accounts = split_strip lib a6,
                       primary_bank = a7, setup_complete = True \<rparr>"
    by (intro exI [of _ s] conjI)
next
  fix k :: nat
  assume k: "k < 8"
  let ?as = "take k [a0, a1, a2, a3, a4, a5, a6, a7]"
  have len: "length ?as = k" using k by simp
  from setup_prefix [OF assms, of ?as lib env created tid] len k
  obtain s' where s': "chat_turns lib env created tid (Some s0) ?as = Inr (Some s')"
    and step: "setup_step s' = int k"
    and prof: "user_profile s' = (if ?as = [] then None else Some (store_answers lib 0 ?as default_profile))"
    and inc: "\<not> setup_complete (store_answers lib 0 ?as default_profile)"
    by auto
  have "should_setup s' = ''setup''"
    using prof inc by (simp add: should_setup_def)
  with s' step
  show "\<exists>s'. chat_turns lib env created tid (Some s0) ?as = Inr (Some s')
          \<and> setup_step s' = int k \<and> should_setup s' = ''setup''"
    by blast
qed

lemmas wizard_eval =
  ascii_lib_def ascii_search_digits_def ascii_int_def ascii_sub_non_numeric_def ascii_float_def
  ascii_strip_def ascii_space_def split_strip_def is_digit_def digit_val_def

lemma first_run_profile:
  "\<lparr> tax_residency = wizard_answer 0, filing_status = wizard_answer 1,
     dependents =
       (case re_search_digits ascii_lib (wizard_answer 2) of
          None \<Rightarrow> 0
        | Some m \<Rightarrow> (case py_int ascii_lib m of None \<Rightarrow> 0 | Some n \<Rightarrow> n)),
     income_sources = split_strip ascii_lib (wizard_answer 3),
     annual_income_estimate =
       (if re_sub_non_numeric ascii_lib (wizard_answer 4) \<noteq> []
        then (case py_float ascii_lib (re_sub_non_numeric ascii_lib (wizard_answer 4)) of
                None \<Rightarrow> Finite 0
              | Some x \<Rightarrow> x)
        else Finite 0),
     retirement_accounts = split_strip ascii_lib (wizard_answer 5),
     investment_accounts = split_strip ascii_lib (wizard_answer 6),
     primary_bank = wizard_answer 7, setup_complete = True \<rparr>
   = \<lparr> tax_residency = ''US - California'', filing_status = ''Single'', dependents = 0,
       income_sources = [''W-2 employment'', ''investments''],
       annual_income_estimate = Finite 0,
       retirement_accounts = [''401k'', ''Roth IRA''], investment_accounts = [''none''],
       primary_bank = ''Chase'', setup_complete = True \<rparr>"
  by (simp add: wizard_answer_def wizard_eval)

lemma second_run_profile:
  "\<lparr> tax_residency = second_answer 0, filing_status = second_answer 1,
     dependents =
       (case re_search_digits ascii_lib (second_answer 2) of
          None \<Rightarrow> 0
        | Some m \<Rightarrow> (case py_int ascii_lib m of None \<Rightarrow> 0 | Some n \<Rightarrow> n)),
     income_sources = split_strip ascii_lib (second_answer 3),
     annual_income_estimate =
       (if re_sub_non_numeric ascii_lib (second_answer 4) \<noteq> []
        then (case py_float ascii_lib (re_sub_non_numeric ascii_lib (second_answer 4)) of
                None \<Rightarrow> Finite 0
              | Some x \<Rightarrow> x)
        else Finite 0),
     retirement_accounts = split_strip ascii_lib (second_answer 5),
     investment_accounts = split_strip ascii_lib (second_answer 6),
     primary_bank = second_answer 7, setup_complete = True \<rparr>
   = \<lparr> tax_residency = ''UK'', filing_status = ''Married Filing Jointly'', dependents = 2,
       income_sources = [''business income''],
       annual_income_estimate = Finite (170001 / 2),
       retirement_accounts = [''none''],
       investment_accounts = [''brokerage'', ''crypto exchanges''],
       primary_bank = ''Barclays'', setup_complete = True \<rparr>"
  by (simp add: second_answer_def wizard_eval)

theorem setup_wizard_completes_witness:
  "user_profile fresh_thread = None \<and> setup_step fresh_thread = 0
   \<and> (\<exists>s. chat_turns ascii_lib idle_env ''2025-06-01T12:00:00'' ''thread-1'' (Some fresh_thread)
              [wizard_answer 0, wizard_answer 1, wizard_answer 2, wizard_answer 3,
               wizard_answer 4, wizard_answer 5, wizard_answer 6, wizard_answer 7]
              = Inr (Some s)
          \<and> setup_step s = 8
          \<and> user_profile s =
              Some \<lparr> tax_residency = ''US - California'', filing_status = ''Single'',
                     dependents = 0, income_sources = [''W-2 employment'', ''investments''],
                     annual_income_estimate = Finite 0,
                     retirement_accounts = [''401k'', ''Roth IRA''],
                     investment_accounts = [''none''],
                     primary_bank = ''Chase'', setup_complete = True \<rparr>)
   \<and> (\<exists>s. chat_turns ascii_lib idle_env ''2025-06-01T12:00:00'' ''thread-1'' (Some fresh_thread)
              [second_answer 0, second_answer 1, second_answer 2, second_answer 3,
               second_answer 4, second_answer 5, second_answer 6, second_answer 7]
              = Inr (Some s)
          \<and> setup_step s = 8
          \<and> user_profile s =
              Some \<lparr> tax_residency = ''UK'', filing_status = ''Married Filing Jointly'',
                     dependents = 2, income_sources = [''business income''],
                     annual_income_estimate = Finite (170001 / 2),
                     retirement_accounts = [''none''],
                     investment_accounts = [''brokerage'', ''crypto exchanges''],
                     primary_bank = ''Barclays'', setup_complete = True \<rparr>)"
proof -
  have h1: "user_profile fresh_thread = None" and h2: "setup_step fresh_thread = 0"
    by (simp_all add: fresh_thread_def create_default_state_def)
  from setup_wizard_completes [OF h1 h2, THEN conjunct1,
      of ascii_lib idle_env "''2025-06-01T12:00:00''" "''thread-1''"
      "wizard_answer 0" "wizard_answer 1" "wizard_answer 2" "wizard_answer 3"
      "wizard_answer 4" "wizard_answer 5" "wizard_answer 6" "wizard_answer 7"]
  have first: "\<exists>s. chat_turns ascii_lib idle_env ''2025-06-01T12:00:00'' ''thread-1'' (Some fresh_thread)
              [wizard_answer 0, wizard_answer 1, wizard_answer 2, wizard_answer 3,
               wizard_answer 4, wizard_answer 5, wizard_answer 6, wizard_answer 7]
              = Inr (Some s)
          \<and> setup_step s = 8
          \<and> user_profile s =
              Some \<lparr> tax_residency = ''US - California'', filing_status = ''Single'',
                     dependents = 0, income_sources = [''W-2 employment'', ''investments''],
                     annual_income_estimate = Finite 0,
                     retirement_accounts = [''401k'', ''Roth IRA''],
                     investment_accounts = [''none''],
                     primary_bank = ''Chase'', setup_complete = True \<rparr>"
    unfolding first_run_profile by (elim exE conjE) (intro exI conjI, assumption+)
  from setup_wizard_completes [OF h1 h2, THEN conjunct1,
      of ascii_lib idle_env "''2025-06-01T12:00:00''" "''thread-1''"
      "second_answer 0" "second_answer 1" "second_answer 2" "second_answer 3"
      "second_answer 4" "second_answer 5" "second_answer 6" "second_answer 7"]
  have second: "\<exists>s. chat_turns ascii_lib idle_env ''2025-06-01T12:00:00'' ''thread-1'' (Some fresh_thread)
              [second_answer 0, second_answer 1, second_answer 2, second_answer 3,
               second_answer 4, second_answer 5, second_answer 6, second_answer 7]
              = Inr (Some s)
          \<and> setup_step s = 8
          \<and> user_profile s =
              Some \<lparr> tax_residency = ''UK'', filing_status = ''Married Filing Jointly'',
                     dependents = 2, income_sources = [''business income''],
                     annual_income_estimate = Finite (170001 / 2),
                     retirement_accounts = [''none''],
                     investment_accounts = [''brokerage'', ''crypto exchanges''],
                     primary_bank = ''Barclays'', setup_complete = True \<rparr>"
    unfolding second_run_profile by (elim exE conjE) (intro exI conjI, assumption+)
  from h1 h2 first second show ?thesis by (intro conjI)
qed

section \<open>Posting a transaction: auxiliary facts\<close>



lemma balance_of_update:
  "balance_of (AList.update k v accs) n = (if n = k then balance v else balance_of accs n)"
  by (simp add: balance_of_def update_conv')

lemma balance_of_map_entry:
  "balance_of (AList.map_entry k f accs) n =
     (if n = k then (case map_of accs k of None \<Rightarrow> 0 | Some a \<Rightarrow> balance (f a))
      else balance_of accs n)"
  by (simp add: balance_of_def map_of_map_entry split: option.splits)

lemma apply_add_transaction_accounts:
  "accounts (apply_add_transaction lib env func_args state) =
     AList.map_entry (arg_account_to func_args)
       (\<lambda>a. a\<lparr>balance := float_add lib (balance a) (arg_amount func_args)\<rparr>)
       (AList.map_entry (arg_account_from func_args)
          (\<lambda>a. a\<lparr>balance := float_sub lib (balance a) (arg_amount func_args)\<rparr>)
          (ensure_accounts func_args (accounts state)))"
  by (simp add: apply_add_transaction_def add_transaction_def ensure_accounts_def Let_def)

lemma apply_add_transaction_transactions:
  "transactions (apply_add_transaction lib env func_args state)
     = transactions state @ [payload (add_transaction env func_args)]"
  by (simp add: apply_add_transaction_def add_transaction_def Let_def)

lemma ensure_accounts_present:
  "map_of (ensure_accounts func_args accs) (arg_account_from func_args) \<noteq> None"
  "map_of (ensure_accounts func_args accs) (arg_account_to func_args) \<noteq> None"
  by (auto simp: ensure_accounts_def Let_def update_conv')

lemma balance_new_account: "balance (new_account n t) = 0"
  by (simp add: new_account_def)

lemma balance_of_update_new:
  "map_of accs k = None \<Longrightarrow> balance v = 0 \<Longrightarrow> balance_of (AList.update k v accs) n = balance_of accs n"
  by (auto simp: balance_of_def update_conv')


lemma ensure_accounts_balance:
  "balance_of (ensure_accounts func_args accs) n = balance_of accs n"
  by (simp add: ensure_accounts_def Let_def balance_of_update_new balance_new_account)


lemma balance_of_Some: "map_of accs n = Some a \<Longrightarrow> balance_of accs n = balance a"
  by (simp add: balance_of_def)

lemma ensure_accounts_entry:
  "n = arg_account_from func_args \<or> n = arg_account_to func_args \<Longrightarrow>
   \<exists>a. map_of (ensure_accounts func_args accs) n = Some a \<and> balance a = balance_of accs n"
proof -
  assume "n = arg_account_from func_args \<or> n = arg_account_to func_args"
  then have "map_of (ensure_accounts func_args accs) n \<noteq> None"
    using ensure_accounts_present [of func_args accs] by auto
  then obtain a where a: "map_of (ensure_accounts func_args accs) n = Some a" by auto
  from balance_of_Some [OF a] have "balance a = balance_of accs n"
    by (simp add: ensure_accounts_balance)
  with a show ?thesis by simp
qed

lemma posting_debit:
  assumes "arg_account_from func_args \<noteq> arg_account_to func_args"
  shows "balance_of (accounts (apply_add_transaction lib env func_args state))
           (arg_account_from func_args)
         = float_sub lib (balance_of (accounts state) (arg_account_from func_args))
             (arg_amount func_args)"
proof -
  obtain a where "map_of (ensure_accounts func_args (accounts state)) (arg_account_from func_args) = Some a"
    and "balance a = balance_of (accounts state) (arg_account_from func_args)"
    using ensure_accounts_entry [of "arg_account_from func_args" func_args "accounts state"] by auto
  then show ?thesis
    using assms by (simp add: apply_add_transaction_accounts balance_of_map_entry)
qed

lemma posting_credit:
  assumes "arg_account_from func_args \<noteq> arg_account_to func_args"
  shows "balance_of (accounts (apply_add_transaction lib env func_args state))
           (arg_account_to func_args)
         = float_add lib (balance_of (accounts state) (arg_account_to func_args))
             (arg_amount func_args)"
proof -
  obtain b where "map_of (ensure_accounts func_args (accounts state)) (arg_account_to func_args) = Some b"
    and "balance b = balance_of (accounts state) (arg_account_to func_args)"
    using ensure_accounts_entry [of "arg_account_to func_args" func_args "accounts state"] by auto
  then show ?thesis
    using assms by (simp add: apply_add_transaction_accounts balance_of_map_entry map_of_map_entry)
qed




lemma posting_changes_state:
  "apply_add_transaction lib env func_args state \<noteq> state"
proof -
  have "transactions (apply_add_transaction lib env func_args state) \<noteq> transactions state"
    unfolding apply_add_transaction_transactions by simp
  then show ?thesis by force
qed

lemmas posting_eval =
  apply_add_transaction_def add_transaction_def transfer_args_def sample_env_def
  create_default_state_def zero_snapshot_def new_account_def balance_of_def total_balance_def
  ascii_lib_def Let_def

lemma dinner_accounts:
  "accounts (apply_add_transaction ascii_lib sample_env (transfer_args 50 ''Checking'' ''Dining'' ''expense'')
      (create_default_state ''2025-06-01T11:59:00'')) =
     [(''Checking'', \<lparr> name = ''Checking'', acc_type = ''asset'', balance = - 50,
                       currency = ''USD'', updated_at = None \<rparr>),
      (''Dining'', \<lparr> name = ''Dining'', acc_type = ''expense'', balance = 50,
                     currency = ''USD'', updated_at = None \<rparr>)]"
  by (simp add: posting_eval)

section \<open>Posting a transaction: claims\<close>




text \<open>
  C2: (as amended) the amount of a transaction is not validated. For every amount,
  positive or not, \<open>add_transaction\<close> reports success with that amount, the transaction is
  appended to the history, both accounts exist afterwards and, when they are different,
  the first holds the float difference of its old balance and the amount and the second
  the float sum of its old balance and the amount; the state is never left as it was.
\<close>

theorem no_amount_validation:
  fixes lib env func_args state
  defines "state' \<equiv> apply_add_transaction lib env func_args state"
    and "src \<equiv> arg_account_from func_args" and "dst \<equiv> arg_account_to func_args"
    and "amt \<equiv> arg_amount func_args"
  shows "success (add_transaction env func_args)
   \<and> amount (payload (add_transaction env func_args)) = amt
   \<and> transactions state' = transactions state @ [payload (add_transaction env func_args)]
   \<and> map_of (accounts state') src \<noteq> None \<and> map_of (accounts state') dst \<noteq> None
   \<and> (src \<noteq> dst \<longrightarrow>
          balance_of (accounts state') src = float_sub lib (balance_of (accounts state) src) amt
        \<and> balance_of (accounts state') dst = float_add lib (balance_of (accounts state) dst) amt)
   \<and> state' \<noteq> state"
proof -
  have ok: "success (add_transaction env func_args)
      \<and> amount (payload (add_transaction env func_args)) = amt"
    by (simp add: add_transaction_def amt_def)
  have t: "transactions state' = transactions state @ [payload (add_transaction env func_args)]"
    unfolding state'_def by (rule apply_add_transaction_transactions)
  have present: "map_of (accounts state') src \<noteq> None \<and> map_of (accounts state') dst \<noteq> None"
    unfolding state'_def src_def dst_def
    using ensure_accounts_present [of func_args "accounts state"]
    by (auto simp: apply_add_transaction_accounts map_of_map_entry)
  have posted: "src \<noteq> dst \<longrightarrow>
          balance_of (accounts state') src = float_sub lib (balance_of (accounts state) src) amt
        \<and> balance_of (accounts state') dst = float_add lib (balance_of (accounts state) dst) amt"
    unfolding state'_def src_def dst_def amt_def
    using posting_debit [of func_args lib env state] posting_credit [of func_args lib env state]
    by blast
  have changed: "state' \<noteq> state"
    unfolding state'_def by (rule posting_changes_state)
  from ok t present posted changed show ?thesis by (intro conjI) simp_all
qed

theorem no_amount_validation_witness:
  "arg_account_from (transfer_args 0 ''Savings'' ''Rent'' ''expense'')
     \<noteq> arg_account_to (transfer_args 0 ''Savings'' ''Rent'' ''expense'')
   \<and> success (add_transaction sample_env (transfer_args 0 ''Savings'' ''Rent'' ''expense''))
   \<and> length (transactions (apply_add_transaction ascii_lib sample_env
         (transfer_args 0 ''Savings'' ''Rent'' ''expense'')
         (create_default_state ''2025-06-01T11:59:00''))) = 1
   \<and> balance_of (accounts (apply_add_transaction ascii_lib sample_env
         (transfer_args 0 ''Savings'' ''Rent'' ''expense'')
         (create_default_state ''2025-06-01T11:59:00''))) ''Savings'' = 0
   \<and> balance_of (accounts (apply_add_transaction ascii_lib sample_env
         (transfer_args 0 ''Savings'' ''Rent'' ''expense'')
         (create_default_state ''2025-06-01T11:59:00''))) ''Rent'' = 0
   \<and> apply_add_transaction ascii_lib sample_env
         (transfer_args 0 ''Savings'' ''Rent'' ''expense'')
         (create_default_state ''2025-06-01T11:59:00'')
       \<noteq> create_default_state ''2025-06-01T11:59:00''"
  using no_amount_validation [where lib = ascii_lib and env = sample_env
      and func_args = "transfer_args 0 ''Savings'' ''Rent'' ''expense''"
      and state = "create_default_state ''2025-06-01T11:59:00''"]
  by (simp add: transfer_args_def create_default_state_def balance_of_def ascii_lib_def)

text \<open>
  A transaction with the amount -5 is accepted and posted: the history and both balances
  change.
\<close>

theorem negative_amount_counterexample:
  "arg_amount (transfer_args (- 5) ''Checking'' ''Dining'' ''expense'') = - 5
   \<and> success (add_transaction sample_env (transfer_args (- 5) ''Checking'' ''Dining'' ''expense''))
   \<and> length (transactions (apply_add_transaction ascii_lib sample_env
         (transfer_args (- 5) ''Checking'' ''Dining'' ''expense'')
         (create_default_state ''2025-06-01T11:59:00''))) = 1
   \<and> balance_of (accounts (apply_add_transaction ascii_lib sample_env
         (transfer_args (- 5) ''Checking'' ''Dining'' ''expense'')
         (create_default_state ''2025-06-01T11:59:00''))) ''Checking'' = 5
   \<and> balance_of (accounts (apply_add_transaction ascii_lib sample_env
         (transfer_args (- 5) ''Checking'' ''Dining'' ''expense'')
         (create_default_state ''2025-06-01T11:59:00''))) ''Dining'' = - 5
   \<and> transactions (create_default_state ''2025-06-01T11:59:00'') = []
   \<and> accounts (create_default_state ''2025-06-01T11:59:00'') = []"
  by (simp add: posting_eval)

section \<open>The chat turn: auxiliary facts\<close>

lemma calculate_snapshot_ledger:
  "accounts s = accounts s' \<Longrightarrow> transactions s = transactions s' \<Longrightarrow>
   calculate_snapshot lib now1 now2 s = calculate_snapshot lib now1 now2 s'"
  by (simp add: calculate_snapshot_def)

lemma finish_message_Inr:
  assumes "finish_message lib env message state = Inr state'"
  shows "calculate_snapshot lib (final_now1 env) (final_now2 env) state'
           = Inr (snapshot state')
         \<and> last_updated state' = final_utcnow env"
proof -
  from assms obtain snap where
    snap: "calculate_snapshot lib (final_now1 env) (final_now2 env) state = Inr snap"
    by (auto simp: finish_message_def split: sum.splits)
  from assms snap have s': "snapshot state' = snap" "last_updated state' = final_utcnow env"
    "accounts state' = accounts state" "transactions state' = transactions state"
    by (auto simp: finish_message_def Let_def split: content_field.splits)
  have "calculate_snapshot lib (final_now1 env) (final_now2 env) state'
          = calculate_snapshot lib (final_now1 env) (final_now2 env) state"
    by (rule calculate_snapshot_ledger) (simp_all add: s')
  with snap s' show ?thesis by simp
qed

lemma process_message_Inr:
  assumes "process_message lib env state = Inr state'"
  shows "calculate_snapshot lib (final_now1 env) (final_now2 env) state'
           = Inr (snapshot state')
         \<and> last_updated state' = final_utcnow env"
  using assms
  by (auto simp: process_message_def Let_def split: sum.splits option.splits if_splits
        dest: finish_message_Inr)

lemmas turn_eval =
  chat_def run_graph_def should_setup_def process_message_def finish_message_def
  handle_setup_def store_answer_def py_index_def SETUP_QUESTIONS_def default_profile_def
  complete_state_def fresh_thread_def dinner_env_def january_env_def idle_env_def
  january_2026_def stale_state_def ledger_state_def
  calculate_snapshot_def posting_eval
  mk_tx_def mk_account_def june_2025_def
  parse_ymd_def is_digit_def digit_val_def replace_Z_def
  is_investment_name_def ascii_lower_def ascii_lower_char_def

lemma dinner_turn_hyp: "should_setup complete_state = ''process''"
  by (simp add: should_setup_def complete_state_def default_profile_def)

lemma dinner_turn:
  "\<exists>s'. chat ascii_lib dinner_env ''2025-06-01T12:00:00'' (Some complete_state) ''thread-1''
           ''Paid $50 for dinner'' = Inr s'
        \<and> snapshot s' =
            \<lparr> total_cash = - 50, total_investments = 0, total_liabilities = 0,
              net_worth = - 50, ytd_income = 0, ytd_expenses = 50,
              estimated_tax_liability = 0, monthly_burn_rate = 50 / 6 \<rparr>"
  by (simp add: turn_eval)

section \<open>The chat turn: claims\<close>

text \<open>
  C9: (as amended) a chat turn that takes the transaction-processing path and
  returns has recomputed the snapshot of the state it returns, recorded it on that state,
  and set \<open>last_updated\<close> to the current time.
\<close>

theorem process_path_records_snapshot:
  assumes "should_setup state = ''process''"
    and "chat lib env created (Some state) tid user_message = Inr state'"
  shows "calculate_snapshot lib (final_now1 env) (final_now2 env) state'
           = Inr (snapshot state')
         \<and> last_updated state' = final_utcnow env"
proof -
  let ?s1 = "state\<lparr>messages := messages state @ [\<lparr>role = ''user'', content = user_message\<rparr>]\<rparr>"
  have "should_setup ?s1 = ''process''" using assms(1) by (simp add: should_setup_def)
  with assms(2) have "process_message lib env ?s1 = Inr state'"
    by (simp add: chat_def run_graph_def)
  then show ?thesis by (rule process_message_Inr)
qed

theorem process_path_records_snapshot_witness:
  "should_setup complete_state = ''process''
   \<and> (\<exists>s'. chat ascii_lib dinner_env ''2025-06-01T12:00:00'' (Some complete_state) ''thread-1''
             ''Paid $50 for dinner'' = Inr s'
          \<and> calculate_snapshot ascii_lib (final_now1 dinner_env) (final_now2 dinner_env) s'
              = Inr (snapshot s')
          \<and> ytd_expenses (snapshot s') = 50
          \<and> last_updated s' = final_utcnow dinner_env)"
proof -
  from dinner_turn obtain s' where
    s': "chat ascii_lib dinner_env ''2025-06-01T12:00:00'' (Some complete_state) ''thread-1''
           ''Paid $50 for dinner'' = Inr s'"
    and e: "ytd_expenses (snapshot s') = 50" by auto
  from process_path_records_snapshot [OF dinner_turn_hyp s'] s' e dinner_turn_hyp
  show ?thesis by blast
qed

text \<open>
  A turn that takes the setup path returns the state with the snapshot and \<open>last_updated\<close>
  it was loaded with, here both out of date.
\<close>

theorem setup_path_stale_counterexample:
  "should_setup stale_state = ''setup''
   \<and> (case chat ascii_lib january_env ''2026-01-15T08:00:00'' (Some stale_state) ''thread-1'' ''hello'' of
        Inl e \<Rightarrow> False
      | Inr s' \<Rightarrow>
          last_updated s' = ''2025-06-01T12:00:00''
          \<and> last_updated s' \<noteq> final_utcnow january_env
          \<and> snapshot s' = snapshot stale_state
          \<and> calculate_snapshot ascii_lib (final_now1 january_env) (final_now2 january_env) s'
               \<noteq> Inr (snapshot s'))"
  by (simp add: turn_eval create_default_state_def)

section \<open>The sync merge: auxiliary facts\<close>

text \<open>
  What the merge appends is decided against the ids of the history as it was loaded. Merging
  a batch a second time appends nothing and leaves the accounts as they are, so a re-submitted
  batch changes nothing; a batch whose ids are pairwise distinct adds no duplicate to a history
  that has none.
\<close>

lemma merge_transactions_filter:
  "merge_transactions ids batch txs = txs @ filter (\<lambda>tx. tx_id tx \<notin> ids) batch"
  by (induction batch arbitrary: txs) simp_all

lemma merge_transactions_again:
  "merge_transactions (set (map tx_id (merge_transactions (set (map tx_id txs)) batch txs))) batch
     (merge_transactions (set (map tx_id txs)) batch txs)
   = merge_transactions (set (map tx_id txs)) batch txs"
  by (auto simp: merge_transactions_filter filter_empty_conv)

lemma merge_transactions_distinct:
  "distinct (map tx_id txs) \<Longrightarrow> distinct (map tx_id batch) \<Longrightarrow>
   distinct (map tx_id (merge_transactions (set (map tx_id txs)) batch txs))"
  by (auto simp: merge_transactions_filter distinct_map_filter) (metis imageI)

lemma map_of_merge_accounts_other:
  "k \<notin> fst ` set us \<Longrightarrow> map_of (merge_accounts us accs) k = map_of accs k"
  by (induction us arbitrary: accs) (auto simp: update_conv')

lemma merge_accounts_again:
  "distinct (map fst us) \<Longrightarrow> merge_accounts us (merge_accounts us accs) = merge_accounts us accs"
proof (induction us arbitrary: accs)
  case Nil
  then show ?case by simp
next
  case (Cons x us)
  obtain k v where x: "x = (k, v)" by (cases x)
  from Cons.prems x have k: "k \<notin> fst ` set us" and d: "distinct (map fst us)" by auto
  let ?m = "AList.update k v accs"
  have "map_of (merge_accounts us ?m) k = Some v"
    using map_of_merge_accounts_other [OF k, of ?m] by (simp add: update_conv')
  then have "AList.update k v (merge_accounts us ?m) = merge_accounts us ?m"
    by (rule update_triv)
  then show ?case
    using Cons.IH [OF d, of ?m] by (simp add: x)
qed

lemma sync_data_again:
  assumes "distinct (map fst (req_accounts request))"
    and "sync_data lib env loaded request = Inr state'"
  shows "sync_data lib env (Some state') request = Inr state'"
proof -
  let ?s0 = "case loaded of
               None \<Rightarrow> (create_default_state (sync_created env))\<lparr>thread_id := req_thread_id request\<rparr>
             | Some s \<Rightarrow> s"
  let ?txs = "merge_transactions (set (map tx_id (transactions ?s0))) (req_transactions request)
                (transactions ?s0)"
  let ?accs = "merge_accounts (req_accounts request) (accounts ?s0)"
  let ?s2 = "?s0\<lparr>transactions := ?txs, accounts := ?accs\<rparr>"
  from assms(2) obtain snap where
    snap: "calculate_snapshot lib (sync_now1 env) (sync_now2 env) ?s2 = Inr snap"
    and s': "state' = ?s2\<lparr>snapshot := snap, last_updated := sync_utcnow env\<rparr>"
    by (auto simp: sync_data_def Let_def split: sum.splits)
  have t: "merge_transactions (set (map tx_id (transactions state'))) (req_transactions request)
             (transactions state') = transactions state'"
    unfolding s' using merge_transactions_again [of "transactions ?s0" "req_transactions request"]
    by simp
  have a: "merge_accounts (req_accounts request) (accounts state') = accounts state'"
    unfolding s' using merge_accounts_again [OF assms(1), of "accounts ?s0"] by simp
  have e: "state'\<lparr>transactions := transactions state', accounts := accounts state'\<rparr> = state'"
    by simp
  have c: "calculate_snapshot lib (sync_now1 env) (sync_now2 env) state' = Inr snap"
    using snap by (simp add: s' calculate_snapshot_def)
  have l: "state'\<lparr>snapshot := snap, last_updated := sync_utcnow env\<rparr> = state'"
    by (simp add: s')
  from t have t': "merge_transactions (tx_id ` set (transactions state')) (req_transactions request)
             (transactions state') = transactions state'"
    by simp
  show ?thesis
    by (simp add: sync_data_def Let_def t' a c l)
qed

section \<open>The sync merge: claims\<close>

text \<open>
  C6: the merge is to append an incoming transaction only if its id is not yet in the
  history, so that no duplicate entries arise. The set of known ids is computed once, before
  the loop, and the loop does not extend it: of a batch that holds the same id twice, on a
  thread with an empty history, both entries are appended, and the income of the
  transaction is counted twice in the snapshot.
\<close>

theorem sync_duplicate_ids_in_batch:
  "(case sync_data ascii_lib june_sync_env None duplicate_request of
      Inl e \<Rightarrow> False
    | Inr s \<Rightarrow> map tx_id (transactions s) = [''t1'', ''t1'']
             \<and> length (transactions s) = 2
             \<and> ytd_income (snapshot s) = 200)"
  by (simp add: sync_data_def duplicate_request_def june_sync_env_def create_default_state_def
        zero_snapshot_def calculate_snapshot_def mk_tx_def june_2025_def
        ascii_lib_def parse_ymd_def is_digit_def digit_val_def replace_Z_def)

end
